theory Spec2Isabelle
  imports Main
begin

section \<open>JavaScript strings\<close>

text \<open>
  A string is a list of characters, each read as one code unit below 256 (ASCII and the
  Latin-1 supplement). On these, \<open>String.prototype.trim\<close> strips TAB, LF, VT, FF, CR,
  SPACE and NBSP from both ends, and \<open>String.prototype.toLowerCase\<close> moves
  \<open>A\<close>..\<open>Z\<close> and U+00C0..U+00DE (but not U+00D7) up by 32.
\<close>

definition isWhiteSpace :: "char \<Rightarrow> bool" where
  "isWhiteSpace c =
     (let n = (of_char c :: nat) in (9 \<le> n \<and> n \<le> 13) \<or> n = 32 \<or> n = 160)"

definition toLowerCaseChar :: "char \<Rightarrow> char" where
  "toLowerCaseChar c =
     (let n = (of_char c :: nat)
      in if (65 \<le> n \<and> n \<le> 90) \<or> (192 \<le> n \<and> n \<le> 222 \<and> n \<noteq> 215)
         then char_of (n + 32) else c)"

definition toLowerCase :: "string \<Rightarrow> string" where
  "toLowerCase s = map toLowerCaseChar s"

definition trim :: "string \<Rightarrow> string" where
  "trim s = rev (dropWhile isWhiteSpace (rev (dropWhile isWhiteSpace s)))"

text \<open>\<open>String.prototype.includes\<close>, written \<open>includes'\<close>, by way of \<open>startsWith\<close>.\<close>

fun startsWith :: "string \<Rightarrow> string \<Rightarrow> bool" where
  "startsWith s [] = True"
| "startsWith [] (c # cs) = False"
| "startsWith (x # xs) (c # cs) = (x = c \<and> startsWith xs cs)"

fun includes' :: "string \<Rightarrow> string \<Rightarrow> bool" where
  "includes' [] sub = (sub = [])"
| "includes' (x # xs) sub = (startsWith (x # xs) sub \<or> includes' xs sub)"


section \<open>JavaScript values and property reads\<close>

text \<open>
  The values that reach the \<open>text\<close> of an assistant message: a string, \<open>undefined\<close>, or
  a property that a plain object inherits from \<open>Object.prototype\<close> (a function, or for
  \<open>__proto__\<close> the prototype itself), named by its key. Of these, only \<open>undefined\<close> and
  the empty string are falsy.
\<close>

datatype js_value = JsString string | JsUndefined | JsInherited string

fun truthy :: "js_value \<Rightarrow> bool" where
  "truthy (JsString s) = (s \<noteq> [])"
| "truthy JsUndefined = False"
| "truthy (JsInherited k) = True"

definition objectPrototypeNames :: "string list" where
  "objectPrototypeNames =
     [''constructor'', ''__defineGetter__'', ''__defineSetter__'', ''hasOwnProperty'',
      ''__lookupGetter__'', ''__lookupSetter__'', ''isPrototypeOf'', ''propertyIsEnumerable'',
      ''toString'', ''valueOf'', ''__proto__'', ''toLocaleString'']"

text \<open>
  \<open>obj[key]\<close> for an object made by \<open>JSON.parse\<close> or \<open>{}\<close> whose own properties are
  strings (a \<open>Record<string, string>\<close>): the own property when there is one, otherwise
  what \<open>Object.prototype\<close> has under that name, otherwise \<open>undefined\<close>.
\<close>

definition getProperty :: "(string \<rightharpoonup> string) \<Rightarrow> string \<Rightarrow> js_value" where
  "getProperty obj key =
     (case obj key of
        Some v \<Rightarrow> JsString v
      | None \<Rightarrow> if key \<in> set objectPrototypeNames then JsInherited key else JsUndefined)"


section \<open>The assistant screen: \<open>FilleAI\<close>\<close>

text \<open>
  An entry of the assistant conversation, \<open>{ type: string; text: string }\<close>. The field
  \<open>text\<close> is written \<open>text'\<close>; it holds whatever value the code puts there, which is
  not always a string.
\<close>

record ai_message =
  type :: string
  text' :: js_value

text \<open>\<open>Platform.OS\<close>, as far as \<open>getServerUrl\<close> tells its values apart.\<close>

datatype platform = Android | Ios | OtherOS

definition getServerUrl :: "platform \<Rightarrow> string" where
  "getServerUrl os =
     (case os of
        Android \<Rightarrow> ''http://10.0.2.2:8000/chat''
      | Ios \<Rightarrow> ''http://localhost:8000/chat''
      | OtherOS \<Rightarrow> ''http://localhost:8000/chat'')"

text \<open>
  A call of \<open>fetch\<close>: the URL and the \<open>message\<close> field of the JSON body (the method is
  always POST, the headers are constant).
\<close>

record http_request =
  url :: string
  body_message :: string

text \<open>
  How a \<open>fetch\<close> settles. The promise rejects, or it resolves to a response with a status
  and a body; \<open>response.json()\<close> throws on a body that is not JSON, reading
  \<open>data.response\<close> throws when \<open>data\<close> is \<open>null\<close>, and otherwise \<open>data.response\<close> is a
  string or some other value (\<open>undefined\<close> among them), which the code passes to
  \<open>JSON.stringify\<close>.
\<close>

datatype 'j response_value = ResponseString string | ResponseOther 'j

datatype 'j response_body = InvalidJson | NullData | Data "'j response_value"

datatype 'j fetch_outcome = Rejected | Responded nat "'j response_body"

text \<open>
  What the \<open>catch\<close> block of \<open>handleSubmit\<close> receives. The last one is the
  \<open>TypeError\<close> of \<open>aiResponse.toLowerCase()\<close> in \<open>updateSuggestedQuestions\<close> when
  \<open>aiResponse\<close> is not a string.
\<close>

datatype submit_error =
  FetchRejected | BadStatus nat | BodyNotJson | DataNotObject | ToLowerCaseNotAFunction

text \<open>
  The state of the screen that \<open>handleSubmit\<close> and the connectivity listener read and
  write. \<open>fetchCalls\<close> and \<open>alerts\<close> log the two effects that leave the component: the
  requests handed to \<open>fetch\<close> and the errors shown through \<open>Alert.alert\<close>.
  \<open>offlineResponses\<close> holds the own properties of the object of that name. Haptics,
  animations, symptom tracking and the list of suggested questions are left out: nothing
  below reads them.
\<close>

record ai_state =
  isLoading :: bool
  messages :: "ai_message list"
  inputText :: string
  inputHeight :: nat
  isOnline :: bool
  offlineResponses :: "string \<rightharpoonup> string"
  platformOS :: platform
  fetchCalls :: "http_request list"
  alerts :: "submit_error list"

definition offlineNotice :: string where
  "offlineNotice = ''You're currently offline. I have limited functionality, but I'll try to help with basic information.''"

definition noOfflineAnswer :: string where
  "noOfflineAnswer = ''I don't have an offline answer for this question. Please reconnect to the internet for a complete response.''"

definition requestErrorText :: string where
  "requestErrorText = ''Sorry, there was an error processing your request. Please check your network connection and make sure the server is running.''"

text \<open>
  The listener registered with \<open>NetInfo.addEventListener\<close>:
  \<open>setIsOnline(state.isConnected ?? false)\<close>, where \<open>isConnected\<close> is a boolean or \<open>null\<close>.
\<close>

definition netInfoListener :: "bool option \<Rightarrow> ai_state \<Rightarrow> ai_state" where
  "netInfoListener isConnected st =
     st\<lparr>isOnline := (case isConnected of None \<Rightarrow> False | Some b \<Rightarrow> b)\<rparr>"

text \<open>
  \<open>handleSubmit\<close> up to its only suspension point, \<open>await fetch(...)\<close>. The argument is
  \<open>None\<close> when the function is called without one (\<open>text = inputText\<close>). Offline, the
  function runs to its end here; online, it hands one request to \<open>fetch\<close> and suspends
  with \<open>isLoading\<close> set.
\<close>

definition handleSubmit :: "string option \<Rightarrow> ai_state \<Rightarrow> ai_state" where
  "handleSubmit arg st =
     (let text = (case arg of None \<Rightarrow> inputText st | Some t \<Rightarrow> t);
          messageToSend = trim text
      in if messageToSend = [] \<or> isLoading st then st
         else
           let userMessage = messageToSend;
               st1 = st\<lparr>messages := messages st @
                          [\<lparr>type = ''user'', text' = JsString userMessage\<rparr>],
                        inputText := [], inputHeight := 40\<rparr>;
               st2 = st1\<lparr>isLoading := True\<rparr>
           in if \<not> isOnline st then
                let st3 = st2\<lparr>messages := messages st2 @
                               [\<lparr>type = ''computer'', text' = JsString offlineNotice\<rparr>]\<rparr>;
                    offlineAnswer =
                      getProperty (offlineResponses st) (trim (toLowerCase userMessage));
                    st4 = (if truthy offlineAnswer then
                             st3\<lparr>messages := messages st3 @
                                   [\<lparr>type = ''computer'', text' = offlineAnswer\<rparr>]\<rparr>
                           else
                             st3\<lparr>messages := messages st3 @
                                   [\<lparr>type = ''computer'', text' = JsString noOfflineAnswer\<rparr>]\<rparr>)
                in st4\<lparr>isLoading := False\<rparr>
              else
                st2\<lparr>fetchCalls := fetchCalls st2 @
                      [\<lparr>url = getServerUrl (platformOS st), body_message = userMessage\<rparr>]\<rparr>)"

text \<open>\<open>response.ok\<close> holds for the statuses 200 to 299.\<close>

definition response_ok :: "nat \<Rightarrow> bool" where
  "response_ok status = (200 \<le> status \<and> status \<le> 299)"

text \<open>
  Whether \<open>updateSuggestedQuestions(userMessage, aiResponse)\<close> throws. Each of its four
  tests is \<open>userMessage.toLowerCase().includes(w) || aiResponse.toLowerCase().includes(w)\<close>,
  so \<open>toLowerCase\<close> is called on \<open>aiResponse\<close> as soon as the user's message lacks one of
  the four words, and that call throws when \<open>aiResponse\<close> is not a string.
\<close>

definition updateSuggestedQuestions_throws :: "string \<Rightarrow> js_value \<Rightarrow> bool" where
  "updateSuggestedQuestions_throws userMessage answer =
     (case answer of
        JsString s \<Rightarrow> False
      | _ \<Rightarrow> \<not> (includes' (toLowerCase userMessage) ''period''
               \<and> includes' (toLowerCase userMessage) ''pain''
               \<and> includes' (toLowerCase userMessage) ''pregnan''
               \<and> includes' (toLowerCase userMessage) ''hormone''))"

text \<open>The \<open>catch\<close> block: the alert, then the error message.\<close>

definition catchBlock :: "submit_error \<Rightarrow> ai_state \<Rightarrow> ai_state" where
  "catchBlock err st =
     st\<lparr>alerts := alerts st @ [err],
        messages := messages st @ [\<lparr>type = ''computer'', text' = JsString requestErrorText\<rparr>]\<rparr>"

text \<open>
  \<open>handleSubmit\<close> from the settling of \<open>fetch\<close> to its end; \<open>userMessage\<close> is the
  constant of that name the closure holds. \<open>JSON.stringify\<close> is a parameter, \<open>None\<close>
  where it returns \<open>undefined\<close>. The AI response is appended before
  \<open>updateSuggestedQuestions\<close> runs; every throw lands in the \<open>catch\<close> block; \<open>finally\<close>
  clears \<open>isLoading\<close>.
\<close>

definition handleSubmit_settled ::
    "('j \<Rightarrow> string option) \<Rightarrow> string \<Rightarrow> 'j fetch_outcome \<Rightarrow> ai_state \<Rightarrow> ai_state" where
  "handleSubmit_settled stringify userMessage outcome st =
     (let st1 =
        (case outcome of
           Rejected \<Rightarrow> catchBlock FetchRejected st
         | Responded status body \<Rightarrow>
             if \<not> response_ok status then catchBlock (BadStatus status) st
             else
               (case body of
                  InvalidJson \<Rightarrow> catchBlock BodyNotJson st
                | NullData \<Rightarrow> catchBlock DataNotObject st
                | Data response \<Rightarrow>
                    let aiResponse =
                          (case response of
                             ResponseString s \<Rightarrow> JsString s
                           | ResponseOther j \<Rightarrow>
                               (case stringify j of
                                  None \<Rightarrow> JsUndefined
                                | Some s \<Rightarrow> JsString s));
                        st2 = st\<lparr>messages := messages st @
                                   [\<lparr>type = ''computer'', text' = aiResponse\<rparr>]\<rparr>
                    in if updateSuggestedQuestions_throws userMessage aiResponse
                       then catchBlock ToLowerCaseNotAFunction st2
                       else st2))
      in st1\<lparr>isLoading := False\<rparr>)"

text \<open>
  The events the screen reacts to, and the screen's reaction to a sequence of them. A
  settlement comes with the \<open>userMessage\<close> of the call it resumes.
\<close>

datatype 'j ai_event =
    Submit "string option"
  | NetInfo "bool option"
  | FetchSettled string "'j fetch_outcome"

fun ai_step :: "('j \<Rightarrow> string option) \<Rightarrow> ai_state \<Rightarrow> 'j ai_event \<Rightarrow> ai_state" where
  "ai_step stringify st (Submit arg) = handleSubmit arg st"
| "ai_step stringify st (NetInfo isConnected) = netInfoListener isConnected st"
| "ai_step stringify st (FetchSettled userMessage outcome) =
     handleSubmit_settled stringify userMessage outcome st"

definition ai_run :: "('j \<Rightarrow> string option) \<Rightarrow> ai_state \<Rightarrow> 'j ai_event list \<Rightarrow> ai_state" where
  "ai_run stringify st es = foldl (ai_step stringify) st es"

fun isNetInfo :: "'j ai_event \<Rightarrow> bool" where
  "isNetInfo (NetInfo c) = True"
| "isNetInfo e = False"


section \<open>The patient chat screen: \<open>PatientChat\<close>\<close>

text \<open>
  The type \<open>Message\<close>. The timestamp is a parameter: a message on the wire carries what
  the server serialised, a message in the list carries the \<open>Date\<close> made from it. The
  fields \<open>id\<close> and \<open>text\<close> are written \<open>id'\<close> and \<open>text_c\<close>.
\<close>

record 't Message =
  id' :: string
  text_c :: string
  senderId :: string
  senderType :: string
  timestamp :: 't
  isRead :: bool

text \<open>\<open>{ ...msg, timestamp: new Date(msg.timestamp) }\<close>, with \<open>new Date\<close> a parameter.\<close>

definition withDate :: "('w \<Rightarrow> 'd) \<Rightarrow> 'w Message \<Rightarrow> 'd Message" where
  "withDate newDate msg =
     \<lparr>id' = id' msg, text_c = text_c msg, senderId = senderId msg,
      senderType = senderType msg, timestamp = newDate (timestamp msg),
      isRead = isRead msg\<rparr>"

text \<open>
  What the client emits on the socket. The \<open>chatId\<close> of a payload is \<open>None\<close> when the
  expression that computes it evaluates to \<open>undefined\<close>.
\<close>

datatype 'd emitted =
    JoinChat string string
  | EmitMessage string "string option" 'd
  | EmitTyping "string option" bool
  | MarkAsRead "string option" "string list"

text \<open>
  The state of the screen. \<open>socket\<close> is \<open>None\<close> while \<open>socket.current\<close> is \<open>null\<close>, and
  otherwise holds what has been emitted on it, oldest first. \<open>patientId\<close>, \<open>doctorId\<close>
  and \<open>chatId\<close> are the refs of those names. The state variables \<open>messages\<close> and
  \<open>inputHeight\<close> are written \<open>messages_c\<close> and \<open>inputHeight_c\<close>.
\<close>

record 'd chat_state =
  message :: string
  messages_c :: "'d Message list"
  isConnecting :: bool
  isTyping :: bool
  isConnected :: bool
  inputHeight_c :: nat
  socket :: "'d emitted list option"
  patientId :: string
  doctorId :: string
  chatId :: string

text \<open>\<open>socket.current?.emit(...)\<close>: nothing happens without a socket.\<close>

definition emit :: "'d emitted \<Rightarrow> 'd chat_state \<Rightarrow> 'd chat_state" where
  "emit ev st =
     (case socket st of
        None \<Rightarrow> st
      | Some out \<Rightarrow> st\<lparr>socket := Some (out @ [ev])\<rparr>)"

definition joinDoctorChat :: "'d chat_state \<Rightarrow> 'd chat_state" where
  "joinDoctorChat st = emit (JoinChat (patientId st) (doctorId st)) st"

text \<open>The handlers of \<open>connect\<close> and \<open>connect_error\<close>; \<open>now\<close> is \<open>new Date()\<close>.\<close>

definition connect_handler :: "'d \<Rightarrow> 'd chat_state \<Rightarrow> 'd chat_state" where
  "connect_handler now st =
     (let st1 = st\<lparr>isConnecting := False\<rparr>;
          st2 = joinDoctorChat st1
      in st2\<lparr>messages_c :=
             [\<lparr>id' = ''system-welcome'',
               text_c = ''Connected to healthcare chat. Start a conversation with a doctor.'',
               senderId = ''system'', senderType = ''system'', timestamp = now,
               isRead = True\<rparr>]\<rparr>)"

definition connect_error_handler :: "'d \<Rightarrow> 'd chat_state \<Rightarrow> 'd chat_state" where
  "connect_error_handler now st =
     (let st1 = st\<lparr>messages_c :=
             [\<lparr>id' = ''system-error'',
               text_c = ''Failed to connect to the chat server. Please try again later.'',
               senderId = ''system'', senderType = ''system'', timestamp = now,
               isRead = True\<rparr>]\<rparr>
      in st1\<lparr>isConnecting := False\<rparr>)"

text \<open>
  The handler of \<open>previousMessages\<close>. The history is \<open>None\<close> when the payload has no
  \<open>messages\<close> (the guard \<open>messageHistory && messageHistory.length > 0\<close>).
\<close>

definition previousMessages_handler ::
    "('w \<Rightarrow> 'd) \<Rightarrow> string \<Rightarrow> 'w Message list option \<Rightarrow> 'd chat_state \<Rightarrow> 'd chat_state" where
  "previousMessages_handler newDate payloadChatId messageHistory st =
     (case messageHistory of
        None \<Rightarrow> st
      | Some history \<Rightarrow>
          if length history > 0 then
            st\<lparr>messages_c := messages_c st @ map (withDate newDate) history,
               isConnected := True\<rparr>
          else st)"

text \<open>
  The handler of \<open>message\<close>. Its parameter \<open>chatId\<close>, a string of the payload, shadows the
  ref of the same name, so the \<open>chatId.current\<close> of the \<open>markAsRead\<close> payload reads the
  property \<open>current\<close> of a string: \<open>undefined\<close>.
\<close>

definition message_handler ::
    "('w \<Rightarrow> 'd) \<Rightarrow> string \<Rightarrow> 'w Message \<Rightarrow> 'd chat_state \<Rightarrow> 'd chat_state" where
  "message_handler newDate payloadChatId data st =
     (let newMessage = withDate newDate data;
          st1 = st\<lparr>messages_c := messages_c st @ [newMessage],
                   isTyping := False, isConnected := True\<rparr>
      in if senderId data \<noteq> patientId st
         then emit (MarkAsRead None [id' data]) st1
         else st1)"

text \<open>The handler of \<open>typing\<close>.\<close>

definition typing_handler :: "string \<Rightarrow> string \<Rightarrow> bool \<Rightarrow> 'd chat_state \<Rightarrow> 'd chat_state" where
  "typing_handler payloadChatId userId typing st =
     (if userId \<noteq> patientId st then st\<lparr>isTyping := typing\<rparr> else st)"

definition updateInputHeight :: "nat \<Rightarrow> 'd chat_state \<Rightarrow> 'd chat_state" where
  "updateInputHeight height st = st\<lparr>inputHeight_c := min (max 40 height) 100\<rparr>"

text \<open>\<open>sendMessage\<close>; \<open>now\<close> is \<open>new Date()\<close>. An empty string is falsy.\<close>

definition sendMessage :: "'d \<Rightarrow> 'd chat_state \<Rightarrow> 'd chat_state" where
  "sendMessage now st =
     (if trim (message st) = [] then st
      else
        let st1 = emit (EmitMessage (message st) (Some (chatId st)) now) st
        in st1\<lparr>message := [], inputHeight_c := 40\<rparr>)"

text \<open>\<open>handleTyping\<close>, the \<open>onChangeText\<close> callback of the input field.\<close>

definition handleTyping :: "string \<Rightarrow> 'd chat_state \<Rightarrow> 'd chat_state" where
  "handleTyping text st =
     (let st1 = st\<lparr>message := text\<rparr>
      in emit (EmitTyping (Some (chatId st)) (length text > 0)) st1)"

text \<open>
  Everything the screen reacts to: the socket's events and the user's actions. The
  component registers no timer that writes to its state.
\<close>

datatype ('w, 'd) chat_event =
    Connect 'd
  | ConnectError 'd
  | PreviousMessages string "'w Message list option"
  | IncomingMessage string "'w Message"
  | Typing string string bool
  | SendMessage 'd
  | HandleTyping string
  | UpdateInputHeight nat

fun chat_step :: "('w \<Rightarrow> 'd) \<Rightarrow> 'd chat_state \<Rightarrow> ('w, 'd) chat_event \<Rightarrow> 'd chat_state" where
  "chat_step newDate st (Connect now) = connect_handler now st"
| "chat_step newDate st (ConnectError now) = connect_error_handler now st"
| "chat_step newDate st (PreviousMessages c h) = previousMessages_handler newDate c h st"
| "chat_step newDate st (IncomingMessage c m) = message_handler newDate c m st"
| "chat_step newDate st (Typing c u t) = typing_handler c u t st"
| "chat_step newDate st (SendMessage now) = sendMessage now st"
| "chat_step newDate st (HandleTyping t) = handleTyping t st"
| "chat_step newDate st (UpdateInputHeight h) = updateInputHeight h st"

definition chat_run ::
    "('w \<Rightarrow> 'd) \<Rightarrow> 'd chat_state \<Rightarrow> ('w, 'd) chat_event list \<Rightarrow> 'd chat_state" where
  "chat_run newDate st es = foldl (chat_step newDate) st es"


text \<open>
  Classes of events of the chat screen: the user's own actions; the events that clear
  \<open>isTyping\<close> for a screen whose local party is \<open>pid\<close> (any \<open>message\<close> event, and a
  \<open>typing\<close> event of another party that carries \<open>false\<close>); and the events that carry
  messages of the conversation.
\<close>

fun isLocalAction :: "('w, 'd) chat_event \<Rightarrow> bool" where
  "isLocalAction (SendMessage now) = True"
| "isLocalAction (HandleTyping t) = True"
| "isLocalAction (UpdateInputHeight h) = True"
| "isLocalAction e = False"

fun clearsTyping :: "string \<Rightarrow> ('w, 'd) chat_event \<Rightarrow> bool" where
  "clearsTyping pid (Typing c u t) = (u \<noteq> pid \<and> \<not> t)"
| "clearsTyping pid (IncomingMessage c m) = True"
| "clearsTyping pid e = False"

fun carriesMessages :: "('w, 'd) chat_event \<Rightarrow> bool" where
  "carriesMessages (IncomingMessage c m) = True"
| "carriesMessages (PreviousMessages c h) = True"
| "carriesMessages e = False"


section \<open>Concrete states\<close>

text \<open>
  An offline assistant screen whose cache holds one answer, the same screen with a
  request still in flight, one whose cache holds an empty answer, and an online one.
\<close>

definition offlineExample :: ai_state where
  "offlineExample =
     \<lparr>isLoading = False, messages = [], inputText = [], inputHeight = 40, isOnline = False,
      offlineResponses = [''what causes cramps?'' \<mapsto> ''Prostaglandins make the uterus contract.''],
      platformOS = Android, fetchCalls = [], alerts = []\<rparr>"

definition inFlightOfflineExample :: ai_state where
  "inFlightOfflineExample =
     \<lparr>isLoading = True,
      messages = [\<lparr>type = ''user'', text' = JsString ''Is my period flow normal?''\<rparr>],
      inputText = ''what causes cramps?'', inputHeight = 40, isOnline = False,
      offlineResponses = [''what causes cramps?'' \<mapsto> ''Prostaglandins make the uterus contract.''],
      platformOS = Android,
      fetchCalls = [\<lparr>url = ''http://10.0.2.2:8000/chat'',
                     body_message = ''Is my period flow normal?''\<rparr>],
      alerts = []\<rparr>"

definition emptyAnswerExample :: ai_state where
  "emptyAnswerExample =
     \<lparr>isLoading = False, messages = [], inputText = [], inputHeight = 40, isOnline = False,
      offlineResponses = [''is my period flow normal?'' \<mapsto> []],
      platformOS = Ios, fetchCalls = [], alerts = []\<rparr>"

definition onlineExample :: ai_state where
  "onlineExample =
     \<lparr>isLoading = False, messages = [], inputText = ''Is my period flow normal?'',
      inputHeight = 40, isOnline = True, offlineResponses = Map.empty,
      platformOS = Android, fetchCalls = [], alerts = []\<rparr>"

text \<open>
  A chat screen with its socket open and a message typed, the server's copy of that
  message, and two messages of the doctor that arrive 2 ms apart. Timestamps are
  milliseconds, and \<open>new Date\<close> is the identity on them.
\<close>

definition chatExample :: "nat chat_state" where
  "chatExample =
     \<lparr>message = ''I have cramps'', messages_c = [], isConnecting = False, isTyping = False,
      isConnected = False, inputHeight_c = 40, socket = Some [],
      patientId = ''user_k3j9x2a'', doctorId = ''main_doctor'',
      chatId = ''user_k3j9x2a-main_doctor''\<rparr>"

definition echoExample :: "nat Message" where
  "echoExample =
     \<lparr>id' = ''m1'', text_c = ''I have cramps'', senderId = ''user_k3j9x2a'',
      senderType = ''patient'', timestamp = 1700000000000, isRead = False\<rparr>"

definition doctorExample1 :: "nat Message" where
  "doctorExample1 =
     \<lparr>id' = ''d1'', text_c = ''Since when?'', senderId = ''main_doctor'',
      senderType = ''doctor'', timestamp = 1700000001000, isRead = False\<rparr>"

definition doctorExample2 :: "nat Message" where
  "doctorExample2 =
     \<lparr>id' = ''d2'', text_c = ''Any fever?'', senderId = ''main_doctor'',
      senderType = ''doctor'', timestamp = 1700000001002, isRead = False\<rparr>"


section \<open>Strings: what a lower-cased key can be\<close>

lemma toLowerCaseChar_not_upper:
  "\<not> (65 \<le> (of_char (toLowerCaseChar c) :: nat) \<and> (of_char (toLowerCaseChar c) :: nat) \<le> 90)"
  by (auto simp: toLowerCaseChar_def Let_def)

lemma set_trim: "set (trim s) \<subseteq> set s"
proof -
  have d: "set (dropWhile isWhiteSpace xs) \<subseteq> set xs" for xs
    by (auto dest: set_dropWhileD)
  have "set (dropWhile isWhiteSpace (rev (dropWhile isWhiteSpace s))) \<subseteq>
        set (rev (dropWhile isWhiteSpace s))"
    by (rule d)
  also have "\<dots> \<subseteq> set s" using d [of s] by simp
  finally show ?thesis by (simp add: trim_def)
qed

lemma lowered_key_no_upper:
  assumes "c \<in> set (trim (toLowerCase s))"
  shows "\<not> (65 \<le> (of_char c :: nat) \<and> (of_char c :: nat) \<le> 90)"
proof -
  from assms set_trim have "c \<in> set (toLowerCase s)" by blast
  then obtain d where "c = toLowerCaseChar d" by (auto simp: toLowerCase_def)
  then show ?thesis using toLowerCaseChar_not_upper by simp
qed

lemma lowered_key_inherited:
  "trim (toLowerCase s) \<in> set objectPrototypeNames \<longleftrightarrow>
     trim (toLowerCase s) = ''constructor'' \<or> trim (toLowerCase s) = ''__proto__''"
proof -
  let ?k = "trim (toLowerCase s)"
  have up: "c \<notin> set ?k" if "65 \<le> (of_char c :: nat)" "(of_char c :: nat) \<le> 90" for c
    using lowered_key_no_upper [of c s] that by blast
  have "CHR ''G'' \<notin> set ?k" "CHR ''S'' \<notin> set ?k" "CHR ''O'' \<notin> set ?k" "CHR ''P'' \<notin> set ?k"
    "CHR ''I'' \<notin> set ?k" "CHR ''L'' \<notin> set ?k"
    by (rule up; simp)+
  then show ?thesis
    by (auto simp: objectPrototypeNames_def)
qed

lemma getProperty_lowered:
  "getProperty m (trim (toLowerCase s)) =
     (case m (trim (toLowerCase s)) of
        Some a \<Rightarrow> JsString a
      | None \<Rightarrow>
          if trim (toLowerCase s) = ''constructor'' \<or> trim (toLowerCase s) = ''__proto__''
          then JsInherited (trim (toLowerCase s)) else JsUndefined)"
  using lowered_key_inherited [of s]
  by (simp add: getProperty_def split: option.splits)


section \<open>What \<open>handleSubmit\<close> does, case by case\<close>

lemma literal_lengths:
  "length offlineNotice = 100" "length noOfflineAnswer = 107" "length requestErrorText = 124"
  by (simp_all add: offlineNotice_def noOfflineAnswer_def requestErrorText_def)

lemma handleSubmit_rejected:
  "trim (case arg of None \<Rightarrow> inputText st | Some t \<Rightarrow> t) = [] \<or> isLoading st \<Longrightarrow>
   handleSubmit arg st = st"
  by (auto simp: handleSubmit_def Let_def)

lemma handleSubmit_offline:
  assumes "trim (case arg of None \<Rightarrow> inputText st | Some t \<Rightarrow> t) = q" "q \<noteq> []"
      and "\<not> isLoading st" "\<not> isOnline st"
  shows "handleSubmit arg st =
     st\<lparr>messages := messages st @
          [\<lparr>type = ''user'', text' = JsString q\<rparr>,
           \<lparr>type = ''computer'', text' = JsString offlineNotice\<rparr>,
           \<lparr>type = ''computer'', text' =
              (case offlineResponses st (trim (toLowerCase q)) of
                 Some a \<Rightarrow> JsString (if a = [] then noOfflineAnswer else a)
               | None \<Rightarrow>
                   if trim (toLowerCase q) = ''constructor'' \<or> trim (toLowerCase q) = ''__proto__''
                   then JsInherited (trim (toLowerCase q))
                   else JsString noOfflineAnswer)\<rparr>],
        inputText := [], inputHeight := 40, isLoading := False\<rparr>"
  using assms
  by (auto simp: handleSubmit_def Let_def getProperty_lowered split: option.splits)

lemma handleSubmit_online:
  assumes "trim (case arg of None \<Rightarrow> inputText st | Some t \<Rightarrow> t) = q" "q \<noteq> []"
      and "\<not> isLoading st" "isOnline st"
  shows "handleSubmit arg st =
     st\<lparr>messages := messages st @ [\<lparr>type = ''user'', text' = JsString q\<rparr>],
        inputText := [], inputHeight := 40, isLoading := True,
        fetchCalls := fetchCalls st @
          [\<lparr>url = getServerUrl (platformOS st), body_message = q\<rparr>]\<rparr>"
  using assms by (auto simp: handleSubmit_def Let_def split: option.splits)

lemma normalize_cramps:
  "trim ''  what causes CRAMPS?  '' = ''what causes CRAMPS?''"
  "trim (toLowerCase ''what causes CRAMPS?'') = ''what causes cramps?''"
  by code_simp+

lemma normalize_unrelated:
  "trim ''something unrelated'' = ''something unrelated''"
  "trim (toLowerCase ''something unrelated'') = ''something unrelated''"
  by code_simp+

lemma normalize_constructor:
  "trim ''Constructor'' = ''Constructor''"
  "trim (toLowerCase ''Constructor'') = ''constructor''"
  by code_simp+

lemma netInfoListener_frame:
  "fetchCalls (netInfoListener c st) = fetchCalls st"
  "messages (netInfoListener c st) = messages st"
  "isLoading (netInfoListener c st) = isLoading st"
  "platformOS (netInfoListener c st) = platformOS st"
  "isOnline (netInfoListener c st) = (c = Some True)"
  by (simp_all add: netInfoListener_def split: option.splits)

lemma handleSubmit_offline_frame:
  assumes "\<not> isOnline st"
  shows "fetchCalls (handleSubmit arg st) = fetchCalls st"
    and "\<not> isOnline (handleSubmit arg st)"
    and "platformOS (handleSubmit arg st) = platformOS st"
  using assms by (auto simp: handleSubmit_def Let_def split: option.splits)

lemma catchBlock_frame:
  "fetchCalls (catchBlock e st) = fetchCalls st"
  "isOnline (catchBlock e st) = isOnline st"
  "platformOS (catchBlock e st) = platformOS st"
  by (simp_all add: catchBlock_def)

lemma handleSubmit_settled_frame:
  "fetchCalls (handleSubmit_settled f u r st) = fetchCalls st"
  "isOnline (handleSubmit_settled f u r st) = isOnline st"
  "platformOS (handleSubmit_settled f u r st) = platformOS st"
  by (simp_all add: handleSubmit_settled_def Let_def catchBlock_frame
      split: fetch_outcome.splits response_body.splits)

lemma ai_step_offline:
  assumes "\<not> isOnline st" and "\<not> isNetInfo e"
  shows "fetchCalls (ai_step f st e) = fetchCalls st \<and> \<not> isOnline (ai_step f st e)
         \<and> platformOS (ai_step f st e) = platformOS st"
  using assms
  by (cases e) (simp_all add: handleSubmit_offline_frame handleSubmit_settled_frame)

lemma ai_run_offline:
  assumes "\<not> isOnline st" and "\<forall>e \<in> set es. \<not> isNetInfo e"
  shows "fetchCalls (ai_run f st es) = fetchCalls st \<and> \<not> isOnline (ai_run f st es)
         \<and> platformOS (ai_run f st es) = platformOS st"
  using assms
proof (induction es arbitrary: st)
  case Nil
  then show ?case by (simp add: ai_run_def)
next
  case (Cons e es)
  from Cons.prems have step: "fetchCalls (ai_step f st e) = fetchCalls st"
    "\<not> isOnline (ai_step f st e)" "platformOS (ai_step f st e) = platformOS st"
    using ai_step_offline [of st e f] by simp_all
  from Cons.prems have "\<forall>e \<in> set es. \<not> isNetInfo e" by simp
  from Cons.IH [OF step(2) this] step show ?case
    by (simp add: ai_run_def)
qed


section \<open>What the handlers of the chat screen touch\<close>

lemma emit_frame:
  "messages_c (emit ev st) = messages_c st"
  "message (emit ev st) = message st"
  "isTyping (emit ev st) = isTyping st"
  "patientId (emit ev st) = patientId st"
  "chatId (emit ev st) = chatId st"
  "socket (emit ev st) = map_option (\<lambda>out. out @ [ev]) (socket st)"
  by (simp_all add: emit_def split: option.splits)

lemma sendMessage_frame:
  "messages_c (sendMessage now st) = messages_c st"
  "isTyping (sendMessage now st) = isTyping st"
  "patientId (sendMessage now st) = patientId st"
  "chatId (sendMessage now st) = chatId st"
  by (simp_all add: sendMessage_def Let_def emit_frame)

lemma handleTyping_frame:
  "messages_c (handleTyping t st) = messages_c st"
  "isTyping (handleTyping t st) = isTyping st"
  "patientId (handleTyping t st) = patientId st"
  "chatId (handleTyping t st) = chatId st"
  "socket (handleTyping t st) =
     map_option (\<lambda>out. out @ [EmitTyping (Some (chatId st)) (t \<noteq> [])]) (socket st)"
  by (simp_all add: handleTyping_def Let_def emit_frame)

lemma message_handler_effect:
  "messages_c (message_handler nd c m st) = messages_c st @ [withDate nd m]"
  "isTyping (message_handler nd c m st) = False"
  "patientId (message_handler nd c m st) = patientId st"
  "socket (message_handler nd c m st) =
     (if senderId m \<noteq> patientId st
      then map_option (\<lambda>out. out @ [MarkAsRead None [id' m]]) (socket st)
      else socket st)"
  by (simp_all add: message_handler_def Let_def emit_frame)

lemma previousMessages_effect:
  "messages_c (previousMessages_handler nd c (Some B) st) = messages_c st @ map (withDate nd) B"
  "isTyping (previousMessages_handler nd c h st) = isTyping st"
  "patientId (previousMessages_handler nd c h st) = patientId st"
  by (simp_all add: previousMessages_handler_def split: option.splits)


lemma chat_step_patientId: "patientId (chat_step nd st e) = patientId st"
  by (cases e)
    (simp_all add: connect_handler_def connect_error_handler_def joinDoctorChat_def Let_def
      emit_frame previousMessages_effect message_handler_effect typing_handler_def
      sendMessage_frame handleTyping_frame updateInputHeight_def)

lemma chat_step_keeps_typing:
  "\<not> clearsTyping (patientId st) e \<Longrightarrow> isTyping st \<Longrightarrow> isTyping (chat_step nd st e)"
  by (cases e)
    (auto simp: connect_handler_def connect_error_handler_def joinDoctorChat_def Let_def
      emit_frame previousMessages_effect sendMessage_frame handleTyping_frame
      updateInputHeight_def typing_handler_def)

lemma chat_run_keeps_typing:
  "\<forall>e \<in> set es. \<not> clearsTyping (patientId st) e \<Longrightarrow> isTyping st \<Longrightarrow>
   isTyping (chat_run nd st es) \<and> patientId (chat_run nd st es) = patientId st"
  by (induction es arbitrary: st)
    (simp_all add: chat_run_def chat_step_keeps_typing chat_step_patientId)

lemma chat_step_no_new_message:
  "\<not> carriesMessages e \<Longrightarrow> m \<in> set (messages_c (chat_step nd st e)) \<Longrightarrow>
   m \<in> set (messages_c st) \<or> senderId m = ''system''"
  by (cases e)
    (auto simp: connect_handler_def connect_error_handler_def joinDoctorChat_def Let_def
      emit_frame sendMessage_frame handleTyping_frame updateInputHeight_def
      typing_handler_def split: if_splits)

lemma chat_run_no_new_message:
  "\<forall>e \<in> set es. \<not> carriesMessages e \<Longrightarrow> m \<in> set (messages_c (chat_run nd st es)) \<Longrightarrow>
   m \<in> set (messages_c st) \<or> senderId m = ''system''"
proof (induction es arbitrary: st)
  case Nil
  then show ?case by (simp add: chat_run_def)
next
  case (Cons e es)
  from Cons.prems have "m \<in> set (messages_c (chat_run nd (chat_step nd st e) es))"
    by (simp add: chat_run_def)
  with Cons.IH [of "chat_step nd st e"] Cons.prems(1)
  have "m \<in> set (messages_c (chat_step nd st e)) \<or> senderId m = ''system''" by simp
  then show ?case
    using chat_step_no_new_message [of e m nd st] Cons.prems(1) by auto
qed

lemma chat_step_local:
  "isLocalAction e \<Longrightarrow> messages_c (chat_step nd st e) = messages_c st"
  by (cases e) (simp_all add: sendMessage_frame handleTyping_frame updateInputHeight_def)

lemma chat_run_local:
  "\<forall>e \<in> set es. isLocalAction e \<Longrightarrow> messages_c (chat_run nd st es) = messages_c st"
  by (induction es arbitrary: st) (simp_all add: chat_run_def chat_step_local)

lemma handleTyping_run:
  "socket (chat_run nd st (map HandleTyping ts)) =
     map_option (\<lambda>out. out @ map (\<lambda>t. EmitTyping (Some (chatId st)) (t \<noteq> [])) ts) (socket st)"
proof (induction ts arbitrary: st)
  case Nil
  show ?case by (simp add: chat_run_def option.map_ident)
next
  case (Cons t ts)
  have "socket (chat_run nd (handleTyping t st) (map HandleTyping ts)) =
     map_option (\<lambda>out. out @ map (\<lambda>t. EmitTyping (Some (chatId st)) (t \<noteq> [])) ts)
       (socket (handleTyping t st))"
    using Cons.IH [of "handleTyping t st"] by (simp add: handleTyping_frame)
  then show ?case
    by (simp add: chat_run_def handleTyping_frame option.map_comp comp_def)
qed


section \<open>The live path after \<open>fetch\<close> settles\<close>

lemma handleSubmit_settled_string:
  assumes "response_ok status"
  shows "handleSubmit_settled f u (Responded status (Data (ResponseString s))) st =
           st\<lparr>messages := messages st @ [\<lparr>type = ''computer'', text' = JsString s\<rparr>],
              isLoading := False\<rparr>"
  using assms
  by (simp add: handleSubmit_settled_def Let_def updateSuggestedQuestions_throws_def)

lemma handleSubmit_settled_undefined:
  assumes "response_ok status" and "f j = None"
      and "\<not> includes' (toLowerCase u) ''period''"
  shows "handleSubmit_settled f u (Responded status (Data (ResponseOther j))) st =
           st\<lparr>messages := messages st @
                [\<lparr>type = ''computer'', text' = JsUndefined\<rparr>,
                 \<lparr>type = ''computer'', text' = JsString requestErrorText\<rparr>],
              alerts := alerts st @ [ToLowerCaseNotAFunction],
              isLoading := False\<rparr>"
  using assms
  by (simp add: handleSubmit_settled_def Let_def updateSuggestedQuestions_throws_def
      catchBlock_def)


section \<open>The claims\<close>

text \<open>
  C1. A query that is not blank, submitted while the screen is offline and idle, appends
  the user's message, the offline notice and one reply. The reply is found by reading the
  property named by the trimmed, lower-cased query: the stored answer when the key is
  stored with a non-empty string, and the distinct no-offline-answer message when its
  answer is the empty string or when the key is not stored. The two lower-case names that
  the object inherits, \<open>constructor\<close> and \<open>__proto__\<close>, are the exception among the keys
  not stored: for them the reply is the inherited value.
\<close>

theorem offline_lookup:
  assumes "\<not> isOnline st" and "\<not> isLoading st"
      and "(case arg of None \<Rightarrow> inputText st | Some t \<Rightarrow> t) = q" and "trim q \<noteq> []"
  shows "messages (handleSubmit arg st) =
           messages st @
           [\<lparr>type = ''user'', text' = JsString (trim q)\<rparr>,
            \<lparr>type = ''computer'', text' = JsString offlineNotice\<rparr>,
            \<lparr>type = ''computer'', text' =
               (case offlineResponses st (trim (toLowerCase (trim q))) of
                  Some a \<Rightarrow> JsString (if a = [] then noOfflineAnswer else a)
                | None \<Rightarrow>
                    if trim (toLowerCase (trim q)) = ''constructor''
                       \<or> trim (toLowerCase (trim q)) = ''__proto__''
                    then JsInherited (trim (toLowerCase (trim q)))
                    else JsString noOfflineAnswer)\<rparr>]
         \<and> noOfflineAnswer \<noteq> [] \<and> noOfflineAnswer \<noteq> offlineNotice"
proof -
  have "trim (case arg of None \<Rightarrow> inputText st | Some t \<Rightarrow> t) = trim q"
    using assms(3) by simp
  from handleSubmit_offline [OF this assms(4) assms(2) assms(1)]
  have "messages (handleSubmit arg st) =
           messages st @
           [\<lparr>type = ''user'', text' = JsString (trim q)\<rparr>,
            \<lparr>type = ''computer'', text' = JsString offlineNotice\<rparr>,
            \<lparr>type = ''computer'', text' =
               (case offlineResponses st (trim (toLowerCase (trim q))) of
                  Some a \<Rightarrow> JsString (if a = [] then noOfflineAnswer else a)
                | None \<Rightarrow>
                    if trim (toLowerCase (trim q)) = ''constructor''
                       \<or> trim (toLowerCase (trim q)) = ''__proto__''
                    then JsInherited (trim (toLowerCase (trim q)))
                    else JsString noOfflineAnswer)\<rparr>]"
    by simp
  moreover have "noOfflineAnswer \<noteq> []" "noOfflineAnswer \<noteq> offlineNotice"
    by (simp_all add: noOfflineAnswer_def offlineNotice_def)
  ultimately show ?thesis by simp
qed

text \<open>
  C1 at the two queries of the specification: the entry keyed \<open>what causes cramps?\<close> answers
  the query with capitals and blanks around it, and an unrelated query gets the
  no-offline-answer message. The query \<open>Constructor\<close> gets the inherited property.
\<close>

theorem offline_lookup_witness:
  "messages (handleSubmit (Some ''  what causes CRAMPS?  '') offlineExample) =
     [\<lparr>type = ''user'', text' = JsString ''what causes CRAMPS?''\<rparr>,
      \<lparr>type = ''computer'', text' = JsString offlineNotice\<rparr>,
      \<lparr>type = ''computer'', text' = JsString ''Prostaglandins make the uterus contract.''\<rparr>]
   \<and> messages (handleSubmit (Some ''something unrelated'') offlineExample) =
     [\<lparr>type = ''user'', text' = JsString ''something unrelated''\<rparr>,
      \<lparr>type = ''computer'', text' = JsString offlineNotice\<rparr>,
      \<lparr>type = ''computer'', text' = JsString noOfflineAnswer\<rparr>]
   \<and> messages (handleSubmit (Some ''Constructor'') offlineExample) =
     [\<lparr>type = ''user'', text' = JsString ''Constructor''\<rparr>,
      \<lparr>type = ''computer'', text' = JsString offlineNotice\<rparr>,
      \<lparr>type = ''computer'', text' = JsInherited ''constructor''\<rparr>]"
proof -
  have off: "\<not> isOnline offlineExample" "\<not> isLoading offlineExample"
    by (simp_all add: offlineExample_def)
  have ne: "trim ''  what causes CRAMPS?  '' \<noteq> []" "trim ''something unrelated'' \<noteq> []"
    "trim ''Constructor'' \<noteq> []"
    by (simp_all add: normalize_cramps normalize_unrelated normalize_constructor)
  have a1: "(case Some ''  what causes CRAMPS?  '' of None \<Rightarrow> inputText offlineExample | Some t \<Rightarrow> t) =
      ''  what causes CRAMPS?  ''"
    and a2: "(case Some ''something unrelated'' of None \<Rightarrow> inputText offlineExample | Some t \<Rightarrow> t) =
      ''something unrelated''"
    and a3: "(case Some ''Constructor'' of None \<Rightarrow> inputText offlineExample | Some t \<Rightarrow> t) =
      ''Constructor''"
    by simp_all
  show ?thesis
    using offline_lookup [OF off a1 ne(1)] offline_lookup [OF off a2 ne(2)]
      offline_lookup [OF off a3 ne(3)]
    by (simp add: normalize_cramps normalize_unrelated normalize_constructor offlineExample_def)
qed

text \<open>
  C1 as the specification words it (a key that is present always yields its stored answer)
  fails for an entry whose answer is the empty string: the key is present, and the reply
  is the no-offline-answer message.
\<close>

theorem empty_answer_counterexample:
  "offlineResponses emptyAnswerExample (trim (toLowerCase (trim ''Is my period flow normal?''))) = Some []
   \<and> messages (handleSubmit (Some ''Is my period flow normal?'') emptyAnswerExample) =
     [\<lparr>type = ''user'', text' = JsString ''Is my period flow normal?''\<rparr>,
      \<lparr>type = ''computer'', text' = JsString offlineNotice\<rparr>,
      \<lparr>type = ''computer'', text' = JsString noOfflineAnswer\<rparr>]
   \<and> noOfflineAnswer \<noteq> []"
  by code_simp

text \<open>
  C2. The handler of \<open>previousMessages\<close> appends the batch, with its timestamps made into
  dates, at the tail of the list, every time it runs. Replaying a batch appends it a
  second time, and the replay leaves the state as it was exactly when the batch is empty.
\<close>

theorem history_replay_appends_again:
  "messages_c (previousMessages_handler nd c (Some B) (previousMessages_handler nd c (Some B) st)) =
     messages_c st @ map (withDate nd) B @ map (withDate nd) B
   \<and> ((previousMessages_handler nd c (Some B) (previousMessages_handler nd c (Some B) st) =
        previousMessages_handler nd c (Some B) st) = (B = []))"
proof -
  let ?once = "previousMessages_handler nd c (Some B) st"
  let ?twice = "previousMessages_handler nd c (Some B) ?once"
  have m: "messages_c ?twice = messages_c st @ map (withDate nd) B @ map (withDate nd) B"
    by (simp add: previousMessages_effect)
  have "?twice = ?once" if "B = []"
    using that by (simp add: previousMessages_handler_def)
  moreover have "B = []" if "?twice = ?once"
  proof -
    from that have "messages_c ?twice = messages_c ?once" by simp
    then show ?thesis by (simp add: previousMessages_effect)
  qed
  ultimately show ?thesis using m by blast
qed

text \<open>
  C2 as the specification words it (replaying a batch changes nothing) fails for a batch
  of one message: after the replay the list holds it twice.
\<close>

theorem history_replay_counterexample:
  "messages_c (previousMessages_handler (\<lambda>t. t) ''user_k3j9x2a-main_doctor'' (Some [doctorExample1])
      (previousMessages_handler (\<lambda>t. t) ''user_k3j9x2a-main_doctor'' (Some [doctorExample1]) chatExample)) =
     [doctorExample1, doctorExample1]
   \<and> messages_c (previousMessages_handler (\<lambda>t. t) ''user_k3j9x2a-main_doctor'' (Some [doctorExample1])
      chatExample) = [doctorExample1]"
  by (simp add: previousMessages_effect withDate_def chatExample_def doctorExample1_def)



text \<open>
  C4. While the screen is offline, \<open>handleSubmit\<close> hands nothing to \<open>fetch\<close>. A query
  that is blank, or that is submitted while a request is still loading, is dropped by the
  guard at the head of the function: the state does not change. Any other query is
  answered from the offline cache and leaves no request in flight. Over any offline
  period (any submissions and settlements, no connectivity event) the log of requests
  stays as it was; the connectivity listener writes \<open>isOnline\<close> and nothing else, so it
  adds no request and no message when the screen goes back online; and the next accepted
  submission sends one request, which carries that query alone.
\<close>

theorem offline_gate:
  assumes "\<not> isOnline st" and "\<forall>e \<in> set es. \<not> isNetInfo e"
  shows "fetchCalls (handleSubmit arg st) = fetchCalls st
       \<and> (trim q = [] \<or> isLoading st \<longrightarrow> handleSubmit (Some q) st = st)
       \<and> (trim q \<noteq> [] \<and> \<not> isLoading st \<longrightarrow>
            messages (handleSubmit (Some q) st) =
              messages st @
              [\<lparr>type = ''user'', text' = JsString (trim q)\<rparr>,
               \<lparr>type = ''computer'', text' = JsString offlineNotice\<rparr>,
               \<lparr>type = ''computer'', text' =
                  (case offlineResponses st (trim (toLowerCase (trim q))) of
                     Some a \<Rightarrow> JsString (if a = [] then noOfflineAnswer else a)
                   | None \<Rightarrow>
                       if trim (toLowerCase (trim q)) = ''constructor''
                          \<or> trim (toLowerCase (trim q)) = ''__proto__''
                       then JsInherited (trim (toLowerCase (trim q)))
                       else JsString noOfflineAnswer)\<rparr>]
            \<and> \<not> isLoading (handleSubmit (Some q) st))
       \<and> fetchCalls (ai_run stringify st es) = fetchCalls st
       \<and> fetchCalls (netInfoListener c (ai_run stringify st es)) = fetchCalls st
       \<and> messages (netInfoListener c (ai_run stringify st es)) = messages (ai_run stringify st es)
       \<and> isOnline (netInfoListener c (ai_run stringify st es)) = (c = Some True)
       \<and> (trim q' \<noteq> [] \<and> \<not> isLoading (ai_run stringify st es) \<longrightarrow>
            fetchCalls (handleSubmit (Some q') (netInfoListener (Some True) (ai_run stringify st es))) =
              fetchCalls st @ [\<lparr>url = getServerUrl (platformOS st), body_message = trim q'\<rparr>])"
proof -
  let ?s = "ai_run stringify st es"
  have a: "fetchCalls (handleSubmit arg st) = fetchCalls st"
    using assms(1) by (rule handleSubmit_offline_frame)
  have r: "handleSubmit (Some q) st = st" if "trim q = [] \<or> isLoading st"
    using that by (intro handleSubmit_rejected) simp
  have b: "messages (handleSubmit (Some q) st) =
              messages st @
              [\<lparr>type = ''user'', text' = JsString (trim q)\<rparr>,
               \<lparr>type = ''computer'', text' = JsString offlineNotice\<rparr>,
               \<lparr>type = ''computer'', text' =
                  (case offlineResponses st (trim (toLowerCase (trim q))) of
                     Some a \<Rightarrow> JsString (if a = [] then noOfflineAnswer else a)
                   | None \<Rightarrow>
                       if trim (toLowerCase (trim q)) = ''constructor''
                          \<or> trim (toLowerCase (trim q)) = ''__proto__''
                       then JsInherited (trim (toLowerCase (trim q)))
                       else JsString noOfflineAnswer)\<rparr>]
            \<and> \<not> isLoading (handleSubmit (Some q) st)"
    if "trim q \<noteq> []" "\<not> isLoading st"
  proof -
    have "trim (case Some q of None \<Rightarrow> inputText st | Some t \<Rightarrow> t) = trim q" by simp
    from handleSubmit_offline [OF this that assms(1)] show ?thesis by simp
  qed
  have run: "fetchCalls ?s = fetchCalls st" "\<not> isOnline ?s" "platformOS ?s = platformOS st"
    using ai_run_offline [OF assms, of stringify] by simp_all
  have d: "fetchCalls (handleSubmit (Some q') (netInfoListener (Some True) ?s)) =
              fetchCalls st @ [\<lparr>url = getServerUrl (platformOS st), body_message = trim q'\<rparr>]"
    if "trim q' \<noteq> []" "\<not> isLoading ?s"
  proof -
    let ?t = "netInfoListener (Some True) ?s"
    have 1: "trim (case Some q' of None \<Rightarrow> inputText ?t | Some t \<Rightarrow> t) = trim q'" by simp
    have 2: "\<not> isLoading ?t" "isOnline ?t"
      using that(2) by (simp_all add: netInfoListener_frame)
    from handleSubmit_online [OF 1 that(1) 2] show ?thesis
      by (simp add: netInfoListener_frame run)
  qed
  show ?thesis
    using a r b d run by (simp add: netInfoListener_frame)
qed

text \<open>
  C4 on two queries submitted offline and a third submitted after reconnecting, and on a
  query submitted offline while a request is in flight.
\<close>

theorem offline_gate_witness:
  "fetchCalls (handleSubmit (Some ''what causes cramps?'') offlineExample) = []
   \<and> fetchCalls (netInfoListener (Some True)
        (ai_run (\<lambda>j :: string. Some j) offlineExample
           [Submit (Some ''what causes cramps?''), Submit (Some ''something unrelated'')])) = []
   \<and> fetchCalls (handleSubmit (Some '' is my period flow normal? '')
        (netInfoListener (Some True)
           (ai_run (\<lambda>j :: string. Some j) offlineExample
              [Submit (Some ''what causes cramps?''), Submit (Some ''something unrelated'')]))) =
       [\<lparr>url = ''http://10.0.2.2:8000/chat'', body_message = ''is my period flow normal?''\<rparr>]
   \<and> handleSubmit (Some ''what causes cramps?'') inFlightOfflineExample = inFlightOfflineExample"
proof -
  let ?es = "[Submit (Some ''what causes cramps?''), Submit (Some ''something unrelated'')] :: string ai_event list"
  have h1: "\<not> isOnline offlineExample" by (simp add: offlineExample_def)
  have h2: "\<forall>e \<in> set ?es. \<not> isNetInfo e" by simp
  have h3: "trim '' is my period flow normal? '' = ''is my period flow normal?''" by code_simp
  have h4: "\<not> isLoading (ai_run (\<lambda>j :: string. Some j) offlineExample ?es)" by code_simp
  have h5: "platformOS offlineExample = Android" "fetchCalls offlineExample = []"
    by (simp_all add: offlineExample_def)
  have g1: "\<not> isOnline inFlightOfflineExample" "isLoading inFlightOfflineExample"
    by (simp_all add: inFlightOfflineExample_def)
  have g2: "\<forall>e \<in> set ([] :: string ai_event list). \<not> isNetInfo e" by simp
  have first: "fetchCalls (handleSubmit (Some ''what causes cramps?'') offlineExample) = []
   \<and> fetchCalls (netInfoListener (Some True) (ai_run (\<lambda>j :: string. Some j) offlineExample ?es)) = []
   \<and> fetchCalls (handleSubmit (Some '' is my period flow normal? '')
        (netInfoListener (Some True) (ai_run (\<lambda>j :: string. Some j) offlineExample ?es))) =
       [\<lparr>url = ''http://10.0.2.2:8000/chat'', body_message = ''is my period flow normal?''\<rparr>]"
    using offline_gate [OF h1 h2, of "Some ''what causes cramps?''" "''x''"
        "\<lambda>j :: string. Some j" "Some True" "'' is my period flow normal? ''"] h3 h4 h5
    by (simp add: getServerUrl_def)
  have second: "handleSubmit (Some ''what causes cramps?'') inFlightOfflineExample =
      inFlightOfflineExample"
    using offline_gate [OF g1(1) g2, of "Some ''x''" "''what causes cramps?''"
        "\<lambda>j :: string. Some j" "Some True" "''x''"] g1(2)
    by simp
  from first second show ?thesis by simp
qed

text \<open>
  C4 as the specification words it (every query submitted offline is routed to the
  offline cache) fails for a query submitted offline while a request is still loading:
  the cache holds its answer, and the query is dropped, with no message appended.
\<close>

theorem offline_while_loading_counterexample:
  "\<not> isOnline inFlightOfflineExample
   \<and> offlineResponses inFlightOfflineExample (trim (toLowerCase (trim ''what causes cramps?''))) =
       Some ''Prostaglandins make the uterus contract.''
   \<and> messages (handleSubmit (Some ''what causes cramps?'') inFlightOfflineExample) =
       [\<lparr>type = ''user'', text' = JsString ''Is my period flow normal?''\<rparr>]
   \<and> messages (handleSubmit None inFlightOfflineExample) =
       [\<lparr>type = ''user'', text' = JsString ''Is my period flow normal?''\<rparr>]"
  by code_simp

text \<open>
  C5. The component registers no timer that writes \<open>isTyping\<close>, so the passing of time
  is the absence of events. After a \<open>typing\<close> event of another party with \<open>isTyping\<close>
  true, the flag stays true through every sequence of events that holds no \<open>message\<close>
  event and no \<open>typing\<close> event of another party with \<open>isTyping\<close> false. Such a
  \<open>typing\<close> event clears it, and so does any \<open>message\<close> event. A \<open>typing\<close> event of the
  local party changes nothing.
\<close>

theorem remote_typing_stays_until_event:
  assumes "p \<noteq> patientId st" and "\<forall>e \<in> set es. \<not> clearsTyping (patientId st) e"
  shows "isTyping (chat_run nd (typing_handler c p True st) es)
       \<and> \<not> isTyping (typing_handler c' p False (chat_run nd (typing_handler c p True st) es))
       \<and> \<not> isTyping (message_handler nd c' m (chat_run nd (typing_handler c p True st) es))
       \<and> typing_handler c' (patientId st) b (chat_run nd (typing_handler c p True st) es) =
           chat_run nd (typing_handler c p True st) es"
proof -
  let ?s = "typing_handler c p True st"
  have s: "isTyping ?s" "patientId ?s = patientId st"
    using assms(1) by (simp_all add: typing_handler_def)
  have "\<forall>e \<in> set es. \<not> clearsTyping (patientId ?s) e"
    using assms(2) s(2) by simp
  from chat_run_keeps_typing [OF this s(1), of nd]
  have r: "isTyping (chat_run nd ?s es)" "patientId (chat_run nd ?s es) = patientId st"
    using s(2) by simp_all
  have "\<not> isTyping (typing_handler c' p False (chat_run nd ?s es))"
    using assms(1) r(2) by (simp add: typing_handler_def)
  moreover have "typing_handler c' (patientId st) b (chat_run nd ?s es) = chat_run nd ?s es"
    using r(2) by (simp add: typing_handler_def)
  ultimately show ?thesis
    using r(1) by (simp add: message_handler_effect)
qed

text \<open>
  C5 on a state where the doctor started typing; then the patient typed, the server sent
  back the patient's own typing events, history arrived and the doctor typed on.
\<close>

theorem remote_typing_stays_until_event_witness:
  "isTyping (chat_run (\<lambda>t. t) (typing_handler ''user_k3j9x2a-main_doctor'' ''main_doctor'' True chatExample)
      [HandleTyping ''I'', Typing ''user_k3j9x2a-main_doctor'' ''user_k3j9x2a'' True,
       Typing ''user_k3j9x2a-main_doctor'' ''user_k3j9x2a'' False,
       PreviousMessages ''user_k3j9x2a-main_doctor'' (Some [doctorExample1]),
       Typing ''user_k3j9x2a-main_doctor'' ''main_doctor'' True])
   \<and> \<not> isTyping (message_handler (\<lambda>t. t) ''user_k3j9x2a-main_doctor'' doctorExample2
      (chat_run (\<lambda>t. t) (typing_handler ''user_k3j9x2a-main_doctor'' ''main_doctor'' True chatExample)
        [HandleTyping ''I'', Typing ''user_k3j9x2a-main_doctor'' ''user_k3j9x2a'' True,
         Typing ''user_k3j9x2a-main_doctor'' ''user_k3j9x2a'' False,
         PreviousMessages ''user_k3j9x2a-main_doctor'' (Some [doctorExample1]),
         Typing ''user_k3j9x2a-main_doctor'' ''main_doctor'' True]))"
proof -
  let ?es = "[HandleTyping ''I'', Typing ''user_k3j9x2a-main_doctor'' ''user_k3j9x2a'' True,
       Typing ''user_k3j9x2a-main_doctor'' ''user_k3j9x2a'' False,
       PreviousMessages ''user_k3j9x2a-main_doctor'' (Some [doctorExample1]),
       Typing ''user_k3j9x2a-main_doctor'' ''main_doctor'' True] :: (nat, nat) chat_event list"
  have h1: "''main_doctor'' \<noteq> patientId chatExample" by (simp add: chatExample_def)
  have h2: "\<forall>e \<in> set ?es. \<not> clearsTyping (patientId chatExample) e"
    by (simp add: chatExample_def)
  show ?thesis
    using remote_typing_stays_until_event [OF h1 h2, where nd = "\<lambda>t. t"
        and c = "''user_k3j9x2a-main_doctor''" and c' = "''user_k3j9x2a-main_doctor''"
        and m = doctorExample2]
    by simp
qed

text \<open>
  C5 as the specification words it (the flag reverts to false by itself) fails: after the
  doctor's \<open>typing\<close> event, with no further event at all, the flag is true.
\<close>

theorem remote_typing_counterexample:
  "isTyping (typing_handler ''user_k3j9x2a-main_doctor'' ''main_doctor'' True chatExample)
   \<and> isTyping (chat_run (\<lambda>t. t)
        (typing_handler ''user_k3j9x2a-main_doctor'' ''main_doctor'' True chatExample)
        ([] :: (nat, nat) chat_event list))"
  by (simp add: typing_handler_def chat_run_def chatExample_def)

text \<open>
  C6. \<open>handleTyping\<close> emits one \<open>typing\<close> event on every change of the input, carrying
  whether the new text is non-empty; a sequence of changes emits one event for each of
  them, in order. There is no comparison with the previous value and no debounce.
\<close>

theorem typing_emitted_on_every_change:
  "socket (handleTyping t st) =
     map_option (\<lambda>out. out @ [EmitTyping (Some (chatId st)) (t \<noteq> [])]) (socket st)
   \<and> socket (chat_run nd st (map HandleTyping ts)) =
     map_option (\<lambda>out. out @ map (\<lambda>t. EmitTyping (Some (chatId st)) (t \<noteq> [])) ts) (socket st)"
  by (simp add: handleTyping_frame handleTyping_run)

text \<open>
  C6 as the specification words it (events only on a change of the typing boolean) fails
  on three keystrokes: three events, all with \<open>isTyping\<close> true.
\<close>

theorem typing_per_keystroke_counterexample:
  "socket (handleTyping ''hey'' (handleTyping ''he'' (handleTyping ''h'' chatExample))) =
     Some [EmitTyping (Some ''user_k3j9x2a-main_doctor'') True,
           EmitTyping (Some ''user_k3j9x2a-main_doctor'') True,
           EmitTyping (Some ''user_k3j9x2a-main_doctor'') True]"
  by (simp add: handleTyping_frame chatExample_def)

text \<open>
  C7. For a \<open>message\<close> event of another party the handler emits at once one
  \<open>markAsRead\<close> event, which carries the identifier of that message alone; for a message
  of the local party it emits nothing. The message is appended as received, its \<open>isRead\<close>
  flag unchanged; it has no delivery state.
\<close>

theorem mark_as_read_per_message:
  "socket (message_handler nd c m st) =
     (if senderId m \<noteq> patientId st
      then map_option (\<lambda>out. out @ [MarkAsRead None [id' m]]) (socket st)
      else socket st)
   \<and> messages_c (message_handler nd c m st) = messages_c st @ [withDate nd m]
   \<and> isRead (withDate nd m) = isRead m"
  by (simp add: message_handler_effect withDate_def)

text \<open>
  C7 as the specification words it (identifiers batched over a short window, the message
  marked delivered) fails on two messages of the doctor that arrive 2 ms apart: two
  events of one identifier each, and the stored messages are as received.
\<close>

theorem mark_as_read_counterexample:
  "socket (message_handler (\<lambda>t. t) ''user_k3j9x2a-main_doctor'' doctorExample2
      (message_handler (\<lambda>t. t) ''user_k3j9x2a-main_doctor'' doctorExample1 chatExample)) =
     Some [MarkAsRead None [''d1''], MarkAsRead None [''d2'']]
   \<and> messages_c (message_handler (\<lambda>t. t) ''user_k3j9x2a-main_doctor'' doctorExample2
      (message_handler (\<lambda>t. t) ''user_k3j9x2a-main_doctor'' doctorExample1 chatExample)) =
     [doctorExample1, doctorExample2]
   \<and> isRead doctorExample1 = False"
  by (simp add: message_handler_effect withDate_def chatExample_def doctorExample1_def
      doctorExample2_def)

text \<open>
  C8. When the response to a live request has a status outside 200..299, the rest of
  \<open>handleSubmit\<close> raises the connection-error alert, appends the message that asks to
  check the network connection and the server, and clears \<open>isLoading\<close>. From submission
  to settlement the conversation gains the user's message and that error message, and
  nothing else.
\<close>

theorem non_2xx_is_request_error:
  assumes "\<not> response_ok status"
  shows "handleSubmit_settled stringify u (Responded status body) st =
           st\<lparr>alerts := alerts st @ [BadStatus status],
              messages := messages st @
                [\<lparr>type = ''computer'', text' = JsString requestErrorText\<rparr>],
              isLoading := False\<rparr>
       \<and> (isOnline st \<and> \<not> isLoading st \<and> trim q \<noteq> [] \<longrightarrow>
            messages (handleSubmit_settled stringify u (Responded status body)
                (handleSubmit (Some q) st)) =
              messages st @ [\<lparr>type = ''user'', text' = JsString (trim q)\<rparr>,
                             \<lparr>type = ''computer'', text' = JsString requestErrorText\<rparr>]
          \<and> \<not> isLoading (handleSubmit_settled stringify u (Responded status body)
                (handleSubmit (Some q) st)))"
proof -
  have a: "handleSubmit_settled stringify u (Responded status body) s =
           s\<lparr>alerts := alerts s @ [BadStatus status],
              messages := messages s @
                [\<lparr>type = ''computer'', text' = JsString requestErrorText\<rparr>],
              isLoading := False\<rparr>" for s
    using assms by (simp add: handleSubmit_settled_def catchBlock_def Let_def)
  have b: "messages (handleSubmit_settled stringify u (Responded status body)
                (handleSubmit (Some q) st)) =
              messages st @ [\<lparr>type = ''user'', text' = JsString (trim q)\<rparr>,
                             \<lparr>type = ''computer'', text' = JsString requestErrorText\<rparr>]
          \<and> \<not> isLoading (handleSubmit_settled stringify u (Responded status body)
                (handleSubmit (Some q) st))"
    if "isOnline st" "\<not> isLoading st" "trim q \<noteq> []"
  proof -
    have 1: "trim (case Some q of None \<Rightarrow> inputText st | Some t \<Rightarrow> t) = trim q" by simp
    show ?thesis
      unfolding a handleSubmit_online [OF 1 that(3) that(2) that(1)] by simp
  qed
  show ?thesis using a b by blast
qed

text \<open>
  C8 on a response with status 500 whose body holds an answer.
\<close>

theorem non_2xx_is_request_error_witness:
  "messages (handleSubmit_settled (\<lambda>j :: string. Some j) ''Is my period flow normal?''
      (Responded 500 (Data (ResponseString ''Your flow is normal.'')))
      (handleSubmit (Some ''Is my period flow normal? '') onlineExample)) =
     [\<lparr>type = ''user'', text' = JsString ''Is my period flow normal?''\<rparr>,
      \<lparr>type = ''computer'', text' = JsString requestErrorText\<rparr>]
   \<and> \<not> isLoading (handleSubmit_settled (\<lambda>j :: string. Some j) ''Is my period flow normal?''
        (Responded 500 (Data (ResponseString ''Your flow is normal.'')))
        (handleSubmit (Some ''Is my period flow normal? '') onlineExample))"
proof -
  have h: "\<not> response_ok 500" by (simp add: response_ok_def)
  have t: "trim ''Is my period flow normal? '' = ''Is my period flow normal?''" by code_simp
  show ?thesis
    using non_2xx_is_request_error [OF h, of "\<lambda>j :: string. Some j"
        "''Is my period flow normal?''"
        "Data (ResponseString ''Your flow is normal.'')" onlineExample
        "''Is my period flow normal? ''"]
    by (simp add: t onlineExample_def)
qed

text \<open>
  C9. \<open>sendMessage\<close> leaves the list of messages as it is; when the input is not blank
  it emits the \<open>message\<close> event and clears the input. No sequence of the user's own
  actions changes the list. Through any sequence of events that holds neither a
  \<open>message\<close> nor a \<open>previousMessages\<close> event, every entry of the list was there before
  or is a message of the system. The two handlers that bring a message the patient sent
  into the list are the one of \<open>message\<close>, which appends the server's copy, and the one
  of \<open>previousMessages\<close>, which appends the history.
\<close>

theorem sendMessage_leaves_ledger:
  assumes "\<forall>e \<in> set es. isLocalAction e" and "\<forall>e \<in> set es'. \<not> carriesMessages e"
  shows "messages_c (sendMessage now st) = messages_c st
       \<and> message (sendMessage now st) = (if trim (message st) = [] then message st else [])
       \<and> socket (sendMessage now st) =
           (if trim (message st) = [] then socket st
            else map_option (\<lambda>out. out @ [EmitMessage (message st) (Some (chatId st)) now])
                   (socket st))
       \<and> messages_c (chat_run nd st es) = messages_c st
       \<and> (\<forall>m \<in> set (messages_c (chat_run nd st es')).
             m \<in> set (messages_c st) \<or> senderId m = ''system'')
       \<and> messages_c (message_handler nd c e (sendMessage now st)) = messages_c st @ [withDate nd e]
       \<and> messages_c (previousMessages_handler nd c (Some B) (sendMessage now st)) =
           messages_c st @ map (withDate nd) B"
proof -
  have "message (sendMessage now st) = (if trim (message st) = [] then message st else [])"
    by (simp add: sendMessage_def Let_def)
  moreover have "socket (sendMessage now st) =
           (if trim (message st) = [] then socket st
            else map_option (\<lambda>out. out @ [EmitMessage (message st) (Some (chatId st)) now])
                   (socket st))"
    by (simp add: sendMessage_def Let_def emit_frame)
  moreover have "\<forall>m \<in> set (messages_c (chat_run nd st es')).
             m \<in> set (messages_c st) \<or> senderId m = ''system''"
    using chat_run_no_new_message [OF assms(2), of _ nd st] by blast
  ultimately show ?thesis
    using chat_run_local [OF assms(1), of nd st]
    by (simp add: sendMessage_frame message_handler_effect previousMessages_effect)
qed

text \<open>
  C9 on a message typed, sent and echoed; before the echo, no connection event and no
  typing event puts the message into the list.
\<close>

theorem sendMessage_leaves_ledger_witness:
  "messages_c (sendMessage 1700000000000 chatExample) = []
   \<and> message (sendMessage 1700000000000 chatExample) = []
   \<and> socket (sendMessage 1700000000000 chatExample) =
       Some [EmitMessage ''I have cramps'' (Some ''user_k3j9x2a-main_doctor'') 1700000000000]
   \<and> messages_c (chat_run (\<lambda>t. t) chatExample
        [HandleTyping ''I have cramps'', SendMessage 1700000000000, UpdateInputHeight 40]) = []
   \<and> echoExample \<notin> set (messages_c (chat_run (\<lambda>t. t) chatExample
        [SendMessage 1700000000000, Connect 1700000000500,
         Typing ''user_k3j9x2a-main_doctor'' ''main_doctor'' True]))
   \<and> messages_c (message_handler (\<lambda>t. t) ''user_k3j9x2a-main_doctor'' echoExample
        (sendMessage 1700000000000 chatExample)) = [echoExample]"
proof -
  let ?es = "[HandleTyping ''I have cramps'', SendMessage 1700000000000, UpdateInputHeight 40]
     :: (nat, nat) chat_event list"
  let ?es' = "[SendMessage 1700000000000, Connect 1700000000500,
     Typing ''user_k3j9x2a-main_doctor'' ''main_doctor'' True] :: (nat, nat) chat_event list"
  have h: "\<forall>e \<in> set ?es. isLocalAction e" by simp
  have h': "\<forall>e \<in> set ?es'. \<not> carriesMessages e" by simp
  have t: "trim (message chatExample) \<noteq> []" by code_simp
  have w: "withDate (\<lambda>t. t) echoExample = echoExample"
    by (simp add: withDate_def echoExample_def)
  have s: "senderId echoExample \<noteq> ''system''" by (simp add: echoExample_def)
  have m: "messages_c chatExample = []" by (simp add: chatExample_def)
  note th = sendMessage_leaves_ledger [OF h h', of 1700000000000 chatExample "\<lambda>t. t"
        "''user_k3j9x2a-main_doctor''" echoExample "[]"]
  have "echoExample \<notin> set (messages_c (chat_run (\<lambda>t. t) chatExample ?es'))"
    using th s m by auto
  then show ?thesis
    using th t by (simp add: w chatExample_def)
qed

text \<open>
  C9 as the specification words it (a message the patient sent appears only through a
  \<open>message\<close> event) fails after a reconnection: the patient sends, the socket connects
  again, and the history that the server then replays puts the patient's message into
  the list, with no \<open>message\<close> event at all.
\<close>

theorem history_brings_own_message_counterexample:
  "messages_c (chat_run (\<lambda>t. t) chatExample
      [SendMessage 1700000000000, Connect 1700000000500,
       PreviousMessages ''user_k3j9x2a-main_doctor'' (Some [echoExample])]) =
     [\<lparr>id' = ''system-welcome'',
       text_c = ''Connected to healthcare chat. Start a conversation with a doctor.'',
       senderId = ''system'', senderType = ''system'', timestamp = 1700000000500,
       isRead = True\<rparr>,
      echoExample]
   \<and> senderId echoExample = patientId chatExample
   \<and> text_c echoExample = message chatExample"
  by (simp add: chat_run_def connect_handler_def joinDoctorChat_def Let_def emit_frame
      sendMessage_frame previousMessages_effect withDate_def chatExample_def echoExample_def)

text \<open>
  C10. Offline, a query whose normalized key maps to the empty string gets the
  no-offline-answer message, not the empty answer; and the screen ends in the state it
  reaches with any cache in which reading that key finds nothing.
\<close>

theorem empty_answer_is_miss:
  assumes "\<not> isOnline st" and "\<not> isLoading st"
      and "(case arg of None \<Rightarrow> inputText st | Some t \<Rightarrow> t) = q" and "trim q \<noteq> []"
      and "offlineResponses st (trim (toLowerCase (trim q))) = Some []"
  shows "messages (handleSubmit arg st) =
           messages st @
           [\<lparr>type = ''user'', text' = JsString (trim q)\<rparr>,
            \<lparr>type = ''computer'', text' = JsString offlineNotice\<rparr>,
            \<lparr>type = ''computer'', text' = JsString noOfflineAnswer\<rparr>]
       \<and> (getProperty m (trim (toLowerCase (trim q))) = JsUndefined \<longrightarrow>
            handleSubmit arg (st\<lparr>offlineResponses := m\<rparr>) =
            (handleSubmit arg st)\<lparr>offlineResponses := m\<rparr>)"
proof -
  let ?k = "trim (toLowerCase (trim q))"
  have 1: "trim (case arg of None \<Rightarrow> inputText st | Some t \<Rightarrow> t) = trim q"
    using assms(3) by simp
  have g: "getProperty (offlineResponses st) ?k = JsString []"
    using assms(5) by (simp add: getProperty_def)
  have a: "messages (handleSubmit arg st) =
           messages st @
           [\<lparr>type = ''user'', text' = JsString (trim q)\<rparr>,
            \<lparr>type = ''computer'', text' = JsString offlineNotice\<rparr>,
            \<lparr>type = ''computer'', text' = JsString noOfflineAnswer\<rparr>]"
    using handleSubmit_offline [OF 1 assms(4) assms(2) assms(1)] assms(5) by simp
  have b: "handleSubmit arg (st\<lparr>offlineResponses := m\<rparr>) =
            (handleSubmit arg st)\<lparr>offlineResponses := m\<rparr>"
    if "getProperty m ?k = JsUndefined"
  proof -
    have 2: "(case arg of None \<Rightarrow> inputText (st\<lparr>offlineResponses := m\<rparr>) | Some t \<Rightarrow> t) = q"
      using assms(3) by (cases arg) auto
    show ?thesis
      unfolding handleSubmit_def Let_def 2 assms(3)
      using that g assms(1,2,4) by simp
  qed
  show ?thesis using a b by blast
qed

text \<open>
  C10 on a cache whose only entry has an empty answer, against an empty cache.
\<close>

theorem empty_answer_is_miss_witness:
  "messages (handleSubmit None (emptyAnswerExample\<lparr>inputText := ''Is my period flow normal?''\<rparr>)) =
     messages (handleSubmit None
       (emptyAnswerExample\<lparr>inputText := ''Is my period flow normal?'', offlineResponses := Map.empty\<rparr>))
   \<and> text' (last (messages
        (handleSubmit None (emptyAnswerExample\<lparr>inputText := ''Is my period flow normal?''\<rparr>)))) =
     JsString noOfflineAnswer"
proof -
  let ?st = "emptyAnswerExample\<lparr>inputText := ''Is my period flow normal?''\<rparr>"
  let ?q = "''Is my period flow normal?''"
  have k: "trim ?q = ?q" "trim (toLowerCase ?q) = ''is my period flow normal?''"
    by code_simp+
  have h: "\<not> isOnline ?st" "\<not> isLoading ?st"
    "(case None of None \<Rightarrow> inputText ?st | Some t \<Rightarrow> t) = ?q"
    "trim ?q \<noteq> []"
    "offlineResponses ?st (trim (toLowerCase (trim ?q))) = Some []"
    by (simp_all add: k emptyAnswerExample_def)
  have u: "getProperty Map.empty (trim (toLowerCase (trim ?q))) = JsUndefined"
    by (simp add: k getProperty_def objectPrototypeNames_def)
  note th = empty_answer_is_miss [OF h, of Map.empty]
  from th have ms: "messages (handleSubmit None ?st) =
      messages ?st @
        [\<lparr>type = ''user'', text' = JsString (trim ?q)\<rparr>,
         \<lparr>type = ''computer'', text' = JsString offlineNotice\<rparr>,
         \<lparr>type = ''computer'', text' = JsString noOfflineAnswer\<rparr>]"
    by (rule conjunct1)
  from th u have eq: "handleSubmit None (?st\<lparr>offlineResponses := Map.empty\<rparr>) =
      (handleSubmit None ?st)\<lparr>offlineResponses := Map.empty\<rparr>"
    by (rule conjunct2 [THEN mp])
  have same: "messages (handleSubmit None (?st\<lparr>offlineResponses := Map.empty\<rparr>)) =
      messages (handleSubmit None ?st)"
    by (subst eq) simp
  have lst: "text' (last (messages (handleSubmit None ?st))) = JsString noOfflineAnswer"
    by (subst ms) simp
  from same lst show ?thesis by simp
qed

end
